theory Spec2Isabelle
  imports Main
begin

section \<open>The chat assistant of \<^verbatim>\<open>chatbot/AdvancedAppina.py\<close>\<close>

text \<open>
  The program is a Streamlit script: a chat front end that routes every user message through
  an LLM classifier, an LLM relevance check and an LLM-driven SQL pipeline. Everything it does
  apart from control flow is a call to an external collaborator (the hosted LLM, the database,
  one text file, the Streamlit session). The embedding keeps the control flow of every method
  as it is written and makes the collaborators explicit:
  \<^item> the LLM, the prompt renderer of the LangChain library and the database are oracles that
    return a value or raise; nothing is assumed about what they return;
  \<^item> the description file, the Streamlit session state and a log of every external call are
    fields of a \<open>world\<close> record that each method takes and returns;
  \<^item> a Python exception is the left summand of a result; a method that raises still returns
    the world it has changed so far, as the side effects of a Python call survive its raise.

  Left out are the parts that no property below depends on: the sidebar and its connect
  button, the rendering of the log, the console output of \<open>print\<close>, the layout containers
  (\<open>st.chat_message\<close>, \<open>st.spinner\<close>) and the constructors of the clients, which are taken
  not to raise. An exception is an instance of \<open>Exception\<close>, the class that the one
  \<open>except\<close> clause of the program catches.
\<close>

subsection \<open>Python values\<close>

text \<open>
  \<open>str.strip()\<close> and \<open>str.lower()\<close>. A Python string is a sequence of code points; the model
  is exact on ASCII text (the white space of \<open>str.isspace\<close> below 128 is the range 9 to 13,
  28 to 31 and the blank) and treats every other character as a caseless non-blank.
\<close>

definition py_isspace :: "char \<Rightarrow> bool" where
  "py_isspace c = (let n = (of_char c :: nat) in (9 \<le> n \<and> n \<le> 13) \<or> (28 \<le> n \<and> n \<le> 32))"

definition py_strip :: "string \<Rightarrow> string" where
  "py_strip s = rev (dropWhile py_isspace (rev (dropWhile py_isspace s)))"

definition py_lower_char :: "char \<Rightarrow> char" where
  "py_lower_char c =
     (let n = (of_char c :: nat) in if 65 \<le> n \<and> n \<le> 90 then char_of (n + 32) else c)"

definition py_lower :: "string \<Rightarrow> string" where
  "py_lower s = map py_lower_char s"

text \<open>The slice \<open>xs[-2:]\<close>: the last two entries, or all of a shorter list.\<close>

definition py_last2 :: "'a list \<Rightarrow> 'a list" where
  "py_last2 xs = drop (length xs - 2) xs"

text \<open>Any exception derived from \<open>Exception\<close>, with its message.\<close>

datatype exn = Exception string

datatype message = AIMessage string | HumanMessage string

text \<open>
  The values that the chains bind to prompt variables: a string, a list of messages, or a
  function object (named by its \<open>def\<close>).
\<close>

datatype pyval = PyStr string | PyMessages "message list" | PyFunction string

type_synonym pydict = "string \<rightharpoonup> pyval"

subsection \<open>External collaborators\<close>

text \<open>
  The six API keys of \<open>ChatApp.__init__\<close>; each LLM client is told apart by its key.
\<close>

datatype api_key =
  GEMINI_API_KEY_1 | GEMINI_API_KEY_2 | GEMINI_API_KEY_3
  | GEMINI_API_KEY_4 | GEMINI_API_KEY_5 | GEMINI_API_KEY_6

text \<open>
  The six prompt templates, by the method that holds the literal. The template of
  \<open>generate_description\<close> is an f-string: the schema text is already part of it when it is
  parsed as a template.
\<close>

datatype template =
  Description_template string
  | Classify_template
  | Verify_template
  | Non_serious_template
  | Sql_template
  | Response_template

text \<open>
  Everything a run does to the outside, in order. The \<open>Call_\<close> events mark the entry of a
  method with its arguments, so that "invokes" and "is passed" can be stated; \<open>File_append\<close>
  is one \<open>with open(output_file, "a")\<close> block with the text it writes.
\<close>

datatype event =
  Llm_invoke api_key string
  | Db_get_table_info
  | Db_run string
  | File_append string
  | Sleep nat
  | St_markdown string
  | St_error string
  | Call_describe_and_save_all string
  | Call_classify_question string
  | Call_verify_schema_relevance string string
  | Call_get_non_serious_response string
  | Call_generate_response string "message list"

text \<open>
  A connected \<open>SQLDatabase\<close>. The first argument of each method is the number of events so
  far: the same call may answer differently at different times.
\<close>

record sqldatabase =
  get_table_info :: "nat \<Rightarrow> exn + string"
  run :: "nat \<Rightarrow> string \<Rightarrow> exn + string"

text \<open>
  \<open>llm_invoke key t prompt\<close> is \<open>llm.invoke(prompt).content\<close> on the client built with \<open>key\<close>,
  at time \<open>t\<close>. \<open>format_prompt\<close> is \<open>ChatPromptTemplate.from_template(template)\<close> applied to
  the variable bindings.
\<close>

record env =
  llm_invoke :: "api_key \<Rightarrow> nat \<Rightarrow> string \<Rightarrow> exn + string"
  format_prompt :: "template \<Rightarrow> pydict \<Rightarrow> exn + string"

text \<open>
  \<open>output_file\<close> is the content of \<open>schema_descriptions.txt\<close> (\<open>None\<close>: no such file);
  \<open>chat_history\<close> and \<open>db\<close> are the two entries of \<open>st.session_state\<close>.
\<close>

record world =
  output_file :: "string option"
  chat_history :: "message list"
  db :: "sqldatabase option"
  trace :: "event list"

type_synonym 'a result = "(exn + 'a) \<times> world"

definition log_event :: "event \<Rightarrow> world \<Rightarrow> world" where
  "log_event e w = w\<lparr>trace := trace w @ [e]\<rparr>"

definition clock :: "world \<Rightarrow> nat" where
  "clock w = length (trace w)"

text \<open>
  The three lines every LLM-backed method shares: render the prompt, invoke the client,
  take the content of the reply.
\<close>

definition llm_call :: "env \<Rightarrow> api_key \<Rightarrow> template \<Rightarrow> pydict \<Rightarrow> world \<Rightarrow> string result" where
  "llm_call E key t vars w =
     (case format_prompt E t vars of
        Inl e \<Rightarrow> (Inl e, w)
      | Inr prompt_text \<Rightarrow>
          (llm_invoke E key (clock w) prompt_text, log_event (Llm_invoke key prompt_text) w))"

subsection \<open>SchemaDescriber\<close>

text \<open>
  Both instances (\<open>ChatApp.describer\<close> and \<open>SQLAssistant.describer\<close>) are built with
  \<open>GEMINI_API_KEY_2\<close> and the default output file, so they are one object here.
\<close>

definition generate_description :: "env \<Rightarrow> string \<Rightarrow> world \<Rightarrow> string result" where
  "generate_description E schema_info w =
     (case llm_call E GEMINI_API_KEY_2 (Description_template schema_info)
             [''schema_info'' \<mapsto> PyStr schema_info] w of
        (Inl e, w') \<Rightarrow> (Inl e, w')
      | (Inr content, w') \<Rightarrow> (Inr (py_strip content), w'))"

definition separator :: string where
  "separator = CHR 0x0A # replicate 80 CHR ''-'' @ [CHR 0x0A]"

definition save_descriptions :: "string \<Rightarrow> world \<Rightarrow> world" where
  "save_descriptions descriptions w =
     log_event (File_append (descriptions @ separator))
       (w\<lparr>output_file :=
            Some ((case output_file w of None \<Rightarrow> [] | Some old \<Rightarrow> old) @ descriptions @ separator)\<rparr>)"

definition load_existing_descriptions :: "world \<Rightarrow> string" where
  "load_existing_descriptions w = (case output_file w of Some content \<Rightarrow> content | None \<Rightarrow> [])"

definition describe_and_save_all :: "env \<Rightarrow> string \<Rightarrow> world \<Rightarrow> string result" where
  "describe_and_save_all E database_schema w0 =
     (let w = log_event (Call_describe_and_save_all database_schema) w0;
          existing_descriptions = load_existing_descriptions w
      in if existing_descriptions \<noteq> [] then (Inr existing_descriptions, w)
         else (case generate_description E database_schema w of
                 (Inl e, w') \<Rightarrow> (Inl e, w')
               | (Inr description, w') \<Rightarrow> (Inr description, save_descriptions description w')))"

subsection \<open>QuestionClassifier, SchemaVerifier, NonSeriousAssistant\<close>

definition classify_question :: "env \<Rightarrow> string \<Rightarrow> world \<Rightarrow> string result" where
  "classify_question E question w0 =
     (case llm_call E GEMINI_API_KEY_6 Classify_template [''question'' \<mapsto> PyStr question]
             (log_event (Call_classify_question question) w0) of
        (Inl e, w') \<Rightarrow> (Inl e, w')
      | (Inr content, w') \<Rightarrow> (Inr (py_lower (py_strip content)), w'))"

definition verify_schema_relevance :: "env \<Rightarrow> string \<Rightarrow> string \<Rightarrow> world \<Rightarrow> string result" where
  "verify_schema_relevance E question schema_info w0 =
     (case llm_call E GEMINI_API_KEY_3 Verify_template
             [''question'' \<mapsto> PyStr question, ''schema_info'' \<mapsto> PyStr schema_info]
             (log_event (Call_verify_schema_relevance question schema_info) w0) of
        (Inl e, w') \<Rightarrow> (Inl e, w')
      | (Inr content, w') \<Rightarrow> (Inr (py_lower (py_strip content)), w'))"

definition get_non_serious_response :: "env \<Rightarrow> string \<Rightarrow> world \<Rightarrow> string result" where
  "get_non_serious_response E question w0 =
     (case llm_call E GEMINI_API_KEY_5 Non_serious_template [''question'' \<mapsto> PyStr question]
             (log_event (Call_get_non_serious_response question) w0) of
        (Inl e, w') \<Rightarrow> (Inl e, w')
      | (Inr content, w') \<Rightarrow> (Inr (py_strip content), w'))"

subsection \<open>SQLAssistant\<close>

text \<open>
  The local function \<open>get_schema\<close>, defined with the same body in \<open>get_sql_chain\<close> and in
  \<open>generate_response\<close>.
\<close>

definition get_schema :: "env \<Rightarrow> sqldatabase \<Rightarrow> world \<Rightarrow> string result" where
  "get_schema E d w =
     (case get_table_info d (clock w) of
        Inl e \<Rightarrow> (Inl e, log_event Db_get_table_info w)
      | Inr schema_info \<Rightarrow> describe_and_save_all E schema_info (log_event Db_get_table_info w))"

text \<open>
  The chain that \<open>get_sql_chain\<close> returns, invoked on a dictionary:
  \<open>RunnablePassthrough.assign(schema=get_schema) | prompt | llm_1 | StrOutputParser()\<close>.
  \<open>SQLAssistant\<close> is built as \<open>SQLAssistant(key 4, key 1)\<close>, so \<open>llm_1\<close> has key 4.
\<close>

definition sql_chain :: "env \<Rightarrow> sqldatabase \<Rightarrow> pydict \<Rightarrow> world \<Rightarrow> string result" where
  "sql_chain E d input w =
     (case get_schema E d w of
        (Inl e, w') \<Rightarrow> (Inl e, w')
      | (Inr descriptions, w') \<Rightarrow>
          llm_call E GEMINI_API_KEY_4 Sql_template (input(''schema'' \<mapsto> PyStr descriptions)) w')"

text \<open>
  The first two steps of the chain of \<open>generate_response\<close>:
  \<open>RunnablePassthrough.assign(query=sql_chain).assign(schema=lambda _: get_schema,
  response=lambda vars: db.run(vars["query"]))\<close>. The lambda bound to \<open>schema\<close> returns the
  function \<open>get_schema\<close> without calling it; a value that is no Runnable is stored as it is.
  The two lambdas of the second \<open>assign\<close> run side by side; only \<open>db.run\<close> has an effect.
\<close>

definition chain_assign :: "env \<Rightarrow> sqldatabase \<Rightarrow> pydict \<Rightarrow> world \<Rightarrow> pydict result" where
  "chain_assign E d input w =
     (case sql_chain E d input w of
        (Inl e, w') \<Rightarrow> (Inl e, w')
      | (Inr sql, w') \<Rightarrow>
          (let vars = input(''query'' \<mapsto> PyStr sql) in
           case vars ''query'' of
             Some (PyStr query) \<Rightarrow>
               (case run d (clock w') query of
                  Inl e \<Rightarrow> (Inl e, log_event (Db_run query) w')
                | Inr response \<Rightarrow>
                    (Inr (vars(''schema'' \<mapsto> PyFunction ''get_schema'',
                               ''response'' \<mapsto> PyStr response)),
                     log_event (Db_run query) w'))
           | _ \<Rightarrow> (Inl (Exception ''KeyError''), w')))"

text \<open>The whole chain: the two assignments, then \<open>prompt | llm | StrOutputParser()\<close>.\<close>

definition chain :: "env \<Rightarrow> sqldatabase \<Rightarrow> pydict \<Rightarrow> world \<Rightarrow> string result" where
  "chain E d input w =
     (case chain_assign E d input w of
        (Inl e, w') \<Rightarrow> (Inl e, w')
      | (Inr vars, w') \<Rightarrow> llm_call E GEMINI_API_KEY_1 Response_template vars w')"

definition error_message :: string where
  "error_message =
     ''An error occurred while processing your request. '' @
     ''This could be due to hitting the API limit or other issues. Please try again later.''"

text \<open>\<open>generate_response\<close> has no raising exit: its \<open>try\<close> catches every \<open>Exception\<close>.\<close>

definition generate_response ::
  "env \<Rightarrow> string \<Rightarrow> sqldatabase \<Rightarrow> message list \<Rightarrow> world \<Rightarrow> string \<times> world" where
  "generate_response E user_query d history w0 =
     (let w = log_event (Sleep 10) (log_event (Call_generate_response user_query history) w0) in
      case chain E d [''question'' \<mapsto> PyStr user_query, ''chat_history'' \<mapsto> PyMessages history] w of
        (Inr answer, w') \<Rightarrow> (answer, w')
      | (Inl e, w') \<Rightarrow> (error_message, log_event (St_error error_message) w'))"

subsection \<open>ChatApp\<close>

definition greeting :: string where
  "greeting = ''Hello! I'' @ [CHR 0x27] @ ''m SQL assistant. Ask me anything about your database.''"

text \<open>
  \<open>init_session_state\<close> on the two session entries (\<open>None\<close>: the key is not in
  \<open>st.session_state\<close>).
\<close>

definition init_session_state ::
  "message list option \<Rightarrow> sqldatabase option option \<Rightarrow> message list \<times> sqldatabase option" where
  "init_session_state h d =
     ((case h of None \<Rightarrow> [AIMessage greeting] | Some l \<Rightarrow> l),
      (case d of None \<Rightarrow> None | Some x \<Rightarrow> x))"

definition rejection :: string where
  "rejection =
     ''Thank you for your question! It doesn'' @ [CHR 0x27] @
     ''t seem to be related to the database. Feel free to ask anything related to the '' @
     ''database, such as queries about employees, products, sales, or other business data, '' @
     ''and I'' @ [CHR 0x27] @ ''ll be happy to assist you!''"

text \<open>
  The first two statements of a turn: the append of the Human message and its echo with
  \<open>st.markdown\<close>.
\<close>

definition received :: "string \<Rightarrow> world \<Rightarrow> world" where
  "received user_query w =
     log_event (St_markdown user_query)
       (w\<lparr>chat_history := chat_history w @ [HumanMessage user_query]\<rparr>)"

text \<open>\<open>st.markdown(response)\<close> followed by the append of the AI message.\<close>

definition reply :: "string \<Rightarrow> world \<Rightarrow> world" where
  "reply response w =
     (log_event (St_markdown response) w)\<lparr>chat_history := chat_history w @ [AIMessage response]\<rparr>"

text \<open>
  \<open>handle_user_query\<close>; the argument is what \<open>st.chat_input\<close> returned (\<open>None\<close> when nothing
  was submitted).
\<close>

definition handle_user_query :: "env \<Rightarrow> string option \<Rightarrow> world \<Rightarrow> unit result" where
  "handle_user_query E input w0 =
     (case input of
        None \<Rightarrow> (Inr (), w0)
      | Some user_query \<Rightarrow>
          if user_query = [] then (Inr (), w0)
          else
            (let w = received user_query w0
             in case db w of
                  None \<Rightarrow> (Inr (), w)
                | Some d \<Rightarrow>
                    (case classify_question E user_query w of
                       (Inl e, w1) \<Rightarrow> (Inl e, w1)
                     | (Inr classification, w1) \<Rightarrow>
                         if classification = ''serious'' then
                           (case get_table_info d (clock w1) of
                              Inl e \<Rightarrow> (Inl e, log_event Db_get_table_info w1)
                            | Inr schema_info \<Rightarrow>
                                (case describe_and_save_all E schema_info
                                        (log_event Db_get_table_info w1) of
                                   (Inl e, w2) \<Rightarrow> (Inl e, w2)
                                 | (Inr descriptions, w2) \<Rightarrow>
                                     (case verify_schema_relevance E user_query descriptions w2 of
                                        (Inl e, w3) \<Rightarrow> (Inl e, w3)
                                      | (Inr relevance, w3) \<Rightarrow>
                                          if relevance = ''related'' then
                                            (case generate_response E user_query d
                                                    (py_last2 (chat_history w3)) w3 of
                                               (response, w4) \<Rightarrow> (Inr (), reply response w4))
                                          else (Inr (), reply rejection w3))))
                         else
                           (case get_non_serious_response E user_query w1 of
                              (Inl e, w2) \<Rightarrow> (Inl e, w2)
                            | (Inr response, w2) \<Rightarrow> (Inr (), reply response w2)))))"

subsection \<open>Sessions\<close>

text \<open>
  A session is a sequence of submitted messages, each handled by one script run; the state
  that a run leaves, also one that ends in an exception, is the state the next run starts in.
\<close>

fun turns :: "env \<Rightarrow> string list \<Rightarrow> world \<Rightarrow> world" where
  "turns E [] w = w"
| "turns E (q # qs) w = turns E qs (snd (handle_user_query E (Some q) w))"

text \<open>Every turn of the sequence is a submitted message whose run returns normally.\<close>

fun completed :: "env \<Rightarrow> string list \<Rightarrow> world \<Rightarrow> bool" where
  "completed E [] w = True"
| "completed E (q # qs) w =
     (q \<noteq> [] \<and> fst (handle_user_query E (Some q) w) = Inr () \<and>
      completed E qs (snd (handle_user_query E (Some q) w)))"

subsection \<open>Observing a run\<close>

text \<open>The kinds of event that the properties count.\<close>

fun is_call_describe :: "event \<Rightarrow> bool" where
  "is_call_describe (Call_describe_and_save_all s) = True"
| "is_call_describe _ = False"

fun is_call_classifier :: "event \<Rightarrow> bool" where
  "is_call_classifier (Call_classify_question q) = True"
| "is_call_classifier _ = False"

fun is_call_verifier :: "event \<Rightarrow> bool" where
  "is_call_verifier (Call_verify_schema_relevance q s) = True"
| "is_call_verifier _ = False"

fun is_call_responder :: "event \<Rightarrow> bool" where
  "is_call_responder (Call_get_non_serious_response q) = True"
| "is_call_responder _ = False"

fun is_call_pipeline :: "event \<Rightarrow> bool" where
  "is_call_pipeline (Call_generate_response q h) = True"
| "is_call_pipeline _ = False"

fun is_llm_invoke :: "event \<Rightarrow> bool" where
  "is_llm_invoke (Llm_invoke k p) = True"
| "is_llm_invoke _ = False"



text \<open>The three stages of the pipeline: the two LLM clients of \<open>SQLAssistant\<close> and \<open>db.run\<close>.\<close>

fun is_sql_generation :: "event \<Rightarrow> bool" where
  "is_sql_generation (Llm_invoke GEMINI_API_KEY_4 p) = True"
| "is_sql_generation _ = False"

fun is_execution :: "event \<Rightarrow> bool" where
  "is_execution (Db_run q) = True"
| "is_execution _ = False"

fun is_summarization :: "event \<Rightarrow> bool" where
  "is_summarization (Llm_invoke GEMINI_API_KEY_1 p) = True"
| "is_summarization _ = False"

text \<open>
  What the pipeline and the describer can emit below the entry of \<open>generate_response\<close>:
  everything except the entry marks of the other components and \<open>st.markdown\<close>.
\<close>

fun inner_event :: "event \<Rightarrow> bool" where
  "inner_event (Llm_invoke k p) = True"
| "inner_event Db_get_table_info = True"
| "inner_event (Db_run q) = True"
| "inner_event (File_append s) = True"
| "inner_event (Sleep n) = True"
| "inner_event (St_error m) = True"
| "inner_event (Call_describe_and_save_all s) = True"
| "inner_event _ = False"

text \<open>The second world continues the first: same session state, more events, all of one kind.\<close>

definition extends_by :: "(event \<Rightarrow> bool) \<Rightarrow> world \<Rightarrow> world \<Rightarrow> bool" where
  "extends_by A w w' \<longleftrightarrow>
     chat_history w' = chat_history w \<and> db w' = db w \<and>
     take (length (trace w)) (trace w') = trace w \<and>
     list_all A (drop (length (trace w)) (trace w'))"

definition count_events :: "(event \<Rightarrow> bool) \<Rightarrow> world \<Rightarrow> nat" where
  "count_events P w = length (filter P (trace w))"

subsection \<open>A concrete setting\<close>

text \<open>
  A database with one table, and LLM clients that answer with fixed texts: the classifier
  and the verifier with the two given texts, every client whose key is in \<open>failing\<close> with a
  quota error. The renderer writes what is bound to \<open>schema\<close> between the tags of the two
  pipeline templates, as \<open>str\<close> prints it, and a fixed text for the other templates.
\<close>

fun py_str :: "pyval \<Rightarrow> string" where
  "py_str (PyStr s) = s"
| "py_str (PyMessages ms) = ''[...]''"
| "py_str (PyFunction name) = ''<function '' @ name @ ''>''"

definition example_db :: sqldatabase where
  "example_db =
     \<lparr>get_table_info = (\<lambda>t. Inr ''CREATE TABLE dimEmployee (EmployeeKey INTEGER)''),
      run = (\<lambda>t query. Inr ''[(296,)]'')\<rparr>"

definition example_env :: "string \<Rightarrow> string \<Rightarrow> api_key list \<Rightarrow> env" where
  "example_env classification relevance failing =
     \<lparr>llm_invoke = (\<lambda>key t prompt.
        if key \<in> set failing then Inl (Exception ''429 quota exceeded'')
        else Inr (case key of
                    GEMINI_API_KEY_1 \<Rightarrow> ''There are 296 employees.''
                  | GEMINI_API_KEY_2 \<Rightarrow> ''dimEmployee(EmployeeKey int)''
                  | GEMINI_API_KEY_3 \<Rightarrow> relevance
                  | GEMINI_API_KEY_4 \<Rightarrow> ''SELECT COUNT(*) FROM dimEmployee''
                  | GEMINI_API_KEY_5 \<Rightarrow> ''It just did not add up!''
                  | GEMINI_API_KEY_6 \<Rightarrow> classification)),
      format_prompt = (\<lambda>t vars.
        case vars ''schema'' of
          None \<Rightarrow> Inr ''prompt''
        | Some v \<Rightarrow> Inr (''<SCHEMA>'' @ py_str v @ ''</SCHEMA>''))\<rparr>"

text \<open>A new session, with the description file and the database handle as given.\<close>

definition fresh_world :: "string option \<Rightarrow> sqldatabase option \<Rightarrow> world" where
  "fresh_world file d =
     \<lparr>output_file = file, chat_history = fst (init_session_state None None), db = d,
      trace = []\<rparr>"

section \<open>Lemmas about the model\<close>

lemmas op_defs =
  classify_question_def verify_schema_relevance_def get_non_serious_response_def
  describe_and_save_all_def generate_description_def save_descriptions_def
  load_existing_descriptions_def llm_call_def log_event_def received_def reply_def

lemmas example_defs =
  example_env_def example_db_def fresh_world_def init_session_state_def
  py_strip_def py_lower_def py_lower_char_def py_isspace_def clock_def Let_def char_of_eq_iff

lemma with_snd: "fst p = a \<Longrightarrow> p = (a, snd p)"
  by auto


subsection \<open>What each method adds to the log of events\<close>

lemma count_log_event:
  "count_events P (log_event e w) = count_events P w + (if P e then 1 else 0)"
  by (simp add: count_events_def log_event_def)

lemma llm_call_count:
  assumes "llm_call E k t vars w = (r, w')"
  shows "count_events P w' =
           count_events P w +
             (case format_prompt E t vars of Inl e \<Rightarrow> 0
              | Inr p \<Rightarrow> if P (Llm_invoke k p) then 1 else 0)"
  using assms by (auto simp: llm_call_def count_log_event split: sum.splits)

lemma llm_call_count_le:
  assumes "llm_call E k t vars w = (r, w')"
  shows "count_events P w' \<le> count_events P w + 1"
  using llm_call_count [OF assms, of P] by (simp split: sum.splits if_splits)

lemma describe_count_other:
  assumes "describe_and_save_all E s w = (r, w')"
    and "\<And>x. \<not> P (Call_describe_and_save_all x)"
    and "\<And>p. \<not> P (Llm_invoke GEMINI_API_KEY_2 p)"
    and "\<And>x. \<not> P (File_append x)"
  shows "count_events P w' = count_events P w"
  using assms
  by (auto simp: op_defs count_events_def Let_def split: sum.splits if_splits)

lemma describe_count_self:
  assumes "describe_and_save_all E s w = (r, w')"
  shows "count_events is_call_describe w' = count_events is_call_describe w + 1"
  using assms
  by (auto simp: op_defs count_events_def Let_def split: sum.splits if_splits)

lemma get_schema_count_other:
  assumes "get_schema E d w = (r, w')"
    and "\<And>x. \<not> P (Call_describe_and_save_all x)"
    and "\<And>p. \<not> P (Llm_invoke GEMINI_API_KEY_2 p)"
    and "\<And>x. \<not> P (File_append x)"
    and "\<not> P Db_get_table_info"
  shows "count_events P w' = count_events P w"
proof (cases "get_table_info d (clock w)")
  case (Inl e)
  with assms(1,5) show ?thesis
    by (auto simp: get_schema_def count_log_event)
next
  case (Inr schema_info)
  with assms(1) have "describe_and_save_all E schema_info (log_event Db_get_table_info w) = (r, w')"
    by (simp add: get_schema_def)
  from describe_count_other [OF this assms(2-4)] assms(5) show ?thesis
    by (simp add: count_log_event)
qed

lemma get_schema_count_describe:
  assumes "get_schema E d w = (r, w')"
  shows "count_events is_call_describe w' =
           count_events is_call_describe w +
             (case get_table_info d (clock w) of Inl e \<Rightarrow> 0 | Inr s \<Rightarrow> 1)"
proof (cases "get_table_info d (clock w)")
  case (Inl e)
  with assms have "w' = log_event Db_get_table_info w"
    by (simp add: get_schema_def)
  then show ?thesis
    by (simp add: count_log_event Inl)
next
  case (Inr schema_info)
  with assms have "describe_and_save_all E schema_info (log_event Db_get_table_info w) = (r, w')"
    by (simp add: get_schema_def)
  from describe_count_self [OF this] Inr show ?thesis
    by (simp add: count_log_event)
qed

lemma get_schema_returns:
  assumes "get_schema E d w = (Inr descriptions, w')"
  shows "\<exists>s. get_table_info d (clock w) = Inr s"
  using assms by (auto simp: get_schema_def split: sum.splits)

text \<open>
  The counts of a run of \<open>sql_chain\<close>: at most one SQL-generation call, no execution, no
  summarization, no pipeline entry, and at most one call of the describer (exactly one when
  the chain returns).
\<close>

lemma sql_chain_counts:
  assumes "sql_chain E d input w = (r, w')"
  shows "count_events is_sql_generation w' \<le> count_events is_sql_generation w + 1"
    and "count_events is_execution w' = count_events is_execution w"
    and "count_events is_summarization w' = count_events is_summarization w"
    and "count_events is_call_pipeline w' = count_events is_call_pipeline w"
    and "count_events is_call_describe w' \<le> count_events is_call_describe w + 1"
    and "(\<exists>sql. r = Inr sql) \<Longrightarrow>
           count_events is_call_describe w' = count_events is_call_describe w + 1"
proof -
  obtain r1 w1 where g: "get_schema E d w = (r1, w1)"
    by (cases "get_schema E d w")
  have other: "count_events P w1 = count_events P w"
    if "\<And>x. \<not> P (Call_describe_and_save_all x)" "\<And>p. \<not> P (Llm_invoke GEMINI_API_KEY_2 p)"
      "\<And>x. \<not> P (File_append x)" "\<not> P Db_get_table_info" for P
    using get_schema_count_other [OF g that] .
  have d1: "count_events is_call_describe w1 =
      count_events is_call_describe w +
        (case get_table_info d (clock w) of Inl e \<Rightarrow> 0 | Inr s \<Rightarrow> 1)"
    by (rule get_schema_count_describe [OF g])
  have step: "w' = w1 \<and> (\<exists>e. r = Inl e) \<or>
      (\<exists>descriptions. r1 = Inr descriptions \<and>
         llm_call E GEMINI_API_KEY_4 Sql_template (input(''schema'' \<mapsto> PyStr descriptions)) w1
           = (r, w'))"
    using assms g by (cases r1) (auto simp: sql_chain_def)
  have gen: "count_events is_sql_generation w1 = count_events is_sql_generation w"
    and exe: "count_events is_execution w1 = count_events is_execution w"
    and sum: "count_events is_summarization w1 = count_events is_summarization w"
    and pip: "count_events is_call_pipeline w1 = count_events is_call_pipeline w"
    by (rule other; simp)+
  show "count_events is_sql_generation w' \<le> count_events is_sql_generation w + 1"
    using step gen llm_call_count_le [of E GEMINI_API_KEY_4 _ _ w1 r w' is_sql_generation]
    by auto
  show "count_events is_execution w' = count_events is_execution w"
    using step exe llm_call_count [of E GEMINI_API_KEY_4 _ _ w1 r w' is_execution]
    by (auto split: sum.splits)
  show "count_events is_summarization w' = count_events is_summarization w"
    using step sum llm_call_count [of E GEMINI_API_KEY_4 _ _ w1 r w' is_summarization]
    by (auto split: sum.splits)
  show "count_events is_call_pipeline w' = count_events is_call_pipeline w"
    using step pip llm_call_count [of E GEMINI_API_KEY_4 _ _ w1 r w' is_call_pipeline]
    by (auto split: sum.splits)
  show "count_events is_call_describe w' \<le> count_events is_call_describe w + 1"
    using step d1 llm_call_count [of E GEMINI_API_KEY_4 _ _ w1 r w' is_call_describe]
    by (auto split: sum.splits)
  show "count_events is_call_describe w' = count_events is_call_describe w + 1"
    if "\<exists>sql. r = Inr sql"
    using that step d1 get_schema_returns [of E d w _ w1] g
      llm_call_count [of E GEMINI_API_KEY_4 _ _ w1 r w' is_call_describe]
    by (auto split: sum.splits)
qed

lemma chain_assign_cases:
  assumes "chain_assign E d input w = (r, w')"
  obtains (sql_fails) e where "sql_chain E d input w = (Inl e, w')" and "r = Inl e"
  | (ran) sql w1 where "sql_chain E d input w = (Inr sql, w1)"
      and "w' = log_event (Db_run sql) w1"
      and "r = (case run d (clock w1) sql of
                  Inl e \<Rightarrow> Inl e
                | Inr response \<Rightarrow>
                    Inr (input(''query'' \<mapsto> PyStr sql, ''schema'' \<mapsto> PyFunction ''get_schema'',
                               ''response'' \<mapsto> PyStr response)))"
proof (cases "sql_chain E d input w")
  case (Pair r1 w1)
  show ?thesis
  proof (cases r1)
    case (Inl e)
    with assms Pair show ?thesis
      by (intro sql_fails [of e]) (simp_all add: chain_assign_def)
  next
    case (Inr sql)
    with assms Pair show ?thesis
      by (intro ran [of sql w1]) (auto simp: chain_assign_def split: sum.splits)
  qed
qed

lemma chain_assign_counts:
  assumes "chain_assign E d input w = (r, w')"
  shows "count_events is_sql_generation w' \<le> count_events is_sql_generation w + 1"
    and "count_events is_execution w' \<le> count_events is_execution w + 1"
    and "count_events is_summarization w' = count_events is_summarization w"
    and "count_events is_call_pipeline w' = count_events is_call_pipeline w"
    and "count_events is_call_describe w' \<le> count_events is_call_describe w + 1"
    and "(\<exists>vars. r = Inr vars) \<Longrightarrow>
           count_events is_call_describe w' = count_events is_call_describe w + 1"
  using assms
  by (cases rule: chain_assign_cases; use sql_chain_counts in \<open>fastforce simp: count_log_event\<close>)+

lemma chain_cases:
  assumes "chain E d input w = (r, w')"
  obtains (assign_fails) e where "chain_assign E d input w = (Inl e, w')" and "r = Inl e"
  | (assigned) vars w1 where "chain_assign E d input w = (Inr vars, w1)"
      and "llm_call E GEMINI_API_KEY_1 Response_template vars w1 = (r, w')"
proof (cases "chain_assign E d input w")
  case (Pair r1 w1)
  with assms show ?thesis
    by (cases r1) (auto simp: chain_def intro: assign_fails assigned)
qed

lemma chain_counts:
  assumes "chain E d input w = (r, w')"
  shows "count_events is_sql_generation w' \<le> count_events is_sql_generation w + 1"
    and "count_events is_execution w' \<le> count_events is_execution w + 1"
    and "count_events is_summarization w' \<le> count_events is_summarization w + 1"
    and "count_events is_call_pipeline w' = count_events is_call_pipeline w"
    and "count_events is_call_describe w' \<le> count_events is_call_describe w + 1"
proof -
  from assms
  have "count_events is_sql_generation w' \<le> count_events is_sql_generation w + 1 \<and>
        count_events is_execution w' \<le> count_events is_execution w + 1 \<and>
        count_events is_summarization w' \<le> count_events is_summarization w + 1 \<and>
        count_events is_call_pipeline w' = count_events is_call_pipeline w \<and>
        count_events is_call_describe w' \<le> count_events is_call_describe w + 1"
  proof (cases rule: chain_cases)
    case (assign_fails e)
    from chain_assign_counts [OF assign_fails(1)] show ?thesis by simp
  next
    case (assigned vars w1)
    note a = chain_assign_counts(1-5) [OF assigned(1)]
    note l = llm_call_count [OF assigned(2)]
    from a l [of is_sql_generation] l [of is_execution] l [of is_summarization]
      l [of is_call_pipeline] l [of is_call_describe]
    show ?thesis by (simp split: sum.splits)
  qed
  then show "count_events is_sql_generation w' \<le> count_events is_sql_generation w + 1"
    and "count_events is_execution w' \<le> count_events is_execution w + 1"
    and "count_events is_summarization w' \<le> count_events is_summarization w + 1"
    and "count_events is_call_pipeline w' = count_events is_call_pipeline w"
    and "count_events is_call_describe w' \<le> count_events is_call_describe w + 1"
    by simp_all
qed

lemma generate_response_counts:
  "count_events is_call_pipeline (snd (generate_response E q d h w)) =
     count_events is_call_pipeline w + 1 \<and>
   count_events is_sql_generation (snd (generate_response E q d h w)) \<le>
     count_events is_sql_generation w + 1 \<and>
   count_events is_execution (snd (generate_response E q d h w)) \<le>
     count_events is_execution w + 1 \<and>
   count_events is_summarization (snd (generate_response E q d h w)) \<le>
     count_events is_summarization w + 1 \<and>
   count_events is_call_describe (snd (generate_response E q d h w)) \<le>
     count_events is_call_describe w + 1"
proof -
  let ?w = "log_event (Sleep 10) (log_event (Call_generate_response q h) w)"
  obtain r w' where c:
    "chain E d [''question'' \<mapsto> PyStr q, ''chat_history'' \<mapsto> PyMessages h] ?w = (r, w')"
    by (cases "chain E d [''question'' \<mapsto> PyStr q, ''chat_history'' \<mapsto> PyMessages h] ?w")
  from chain_counts [OF c] c show ?thesis
    by (cases r) (simp_all add: generate_response_def count_log_event)
qed

subsection \<open>Continuations\<close>

lemma extends_by_refl: "extends_by A w w"
  by (simp add: extends_by_def)

lemma extends_by_log_event: "A e \<Longrightarrow> extends_by A w (log_event e w)"
  by (simp add: extends_by_def log_event_def)

lemma extends_by_trans:
  assumes "extends_by A w w1" and "extends_by A w1 w2"
  shows "extends_by A w w2"
proof -
  from assms(1) obtain es where es: "trace w1 = trace w @ es" "list_all A es"
    by (metis append_take_drop_id extends_by_def)
  from assms(2) obtain fs where fs: "trace w2 = trace w1 @ fs" "list_all A fs"
    by (metis append_take_drop_id extends_by_def)
  from es fs have "trace w2 = trace w @ (es @ fs)" "list_all A (es @ fs)"
    by simp_all
  with assms show ?thesis
    by (simp add: extends_by_def)
qed

lemma extends_by_mono:
  assumes "extends_by A w w'" and "\<And>e. A e \<Longrightarrow> B e"
  shows "extends_by B w w'"
  using assms by (auto simp: extends_by_def list_all_iff)

lemma extends_by_filter:
  assumes "extends_by A w w'" and "\<And>e. A e \<Longrightarrow> \<not> P e"
  shows "filter P (trace w') = filter P (trace w)"
proof -
  from assms(1) obtain es where es: "trace w' = trace w @ es" "list_all A es"
    by (metis append_take_drop_id extends_by_def)
  from es(2) assms(2) have "filter P es = []"
    by (auto simp: list_all_iff filter_empty_conv)
  with es(1) show ?thesis by simp
qed


lemma llm_call_extends:
  assumes "llm_call E k t vars w = (r, w')"
  shows "extends_by inner_event w w'"
  using assms
  by (auto simp: llm_call_def extends_by_refl extends_by_log_event split: sum.splits)

lemma describe_extends:
  assumes "describe_and_save_all E s w = (r, w')"
  shows "extends_by inner_event w w'"
  using assms
  by (auto simp: op_defs extends_by_def Let_def split: sum.splits if_splits)

lemma get_schema_extends:
  assumes "get_schema E d w = (r, w')"
  shows "extends_by inner_event w w'"
proof (cases "get_table_info d (clock w)")
  case (Inl e)
  with assms have "w' = log_event Db_get_table_info w"
    by (simp add: get_schema_def)
  then show ?thesis by (simp add: extends_by_log_event)
next
  case (Inr schema_info)
  with assms have "describe_and_save_all E schema_info (log_event Db_get_table_info w) = (r, w')"
    by (simp add: get_schema_def)
  from extends_by_trans [OF extends_by_log_event describe_extends [OF this]]
  show ?thesis by simp
qed

lemma sql_chain_extends:
  assumes "sql_chain E d input w = (r, w')"
  shows "extends_by inner_event w w'"
proof (cases "get_schema E d w")
  case (Pair r1 w1)
  note g = get_schema_extends [OF Pair]
  show ?thesis
  proof (cases r1)
    case (Inl e)
    with assms Pair g show ?thesis by (simp add: sql_chain_def)
  next
    case (Inr descriptions)
    with assms Pair
    have "llm_call E GEMINI_API_KEY_4 Sql_template (input(''schema'' \<mapsto> PyStr descriptions)) w1
            = (r, w')"
      by (simp add: sql_chain_def)
    from extends_by_trans [OF g llm_call_extends [OF this]] show ?thesis .
  qed
qed

lemma chain_assign_extends:
  assumes "chain_assign E d input w = (r, w')"
  shows "extends_by inner_event w w'"
  using assms
proof (cases rule: chain_assign_cases)
  case (sql_fails e)
  from sql_chain_extends [OF sql_fails(1)] show ?thesis .
next
  case (ran sql w1)
  from extends_by_trans [OF sql_chain_extends [OF ran(1)] extends_by_log_event] ran(2)
  show ?thesis by simp
qed

lemma chain_extends:
  assumes "chain E d input w = (r, w')"
  shows "extends_by inner_event w w'"
  using assms
proof (cases rule: chain_cases)
  case (assign_fails e)
  from chain_assign_extends [OF assign_fails(1)] show ?thesis .
next
  case (assigned vars w1)
  from extends_by_trans [OF chain_assign_extends [OF assigned(1)] llm_call_extends [OF assigned(2)]]
  show ?thesis .
qed

text \<open>
  A run of \<open>generate_response\<close> adds its own entry mark and then only inner events; it leaves
  the session state as it is.
\<close>

lemma generate_response_extends:
  "extends_by inner_event (log_event (Call_generate_response q h) w)
     (snd (generate_response E q d h w))"
proof -
  let ?entry = "log_event (Call_generate_response q h) w"
  let ?slept = "log_event (Sleep 10) ?entry"
  obtain r w' where c:
    "chain E d [''question'' \<mapsto> PyStr q, ''chat_history'' \<mapsto> PyMessages h] ?slept = (r, w')"
    by (cases "chain E d [''question'' \<mapsto> PyStr q, ''chat_history'' \<mapsto> PyMessages h] ?slept")
  have "extends_by inner_event ?entry ?slept"
    by (simp add: extends_by_log_event)
  from extends_by_trans [OF this chain_extends [OF c]]
  have 1: "extends_by inner_event ?entry w'" .
  show ?thesis
  proof (cases r)
    case (Inl e)
    with c have "snd (generate_response E q d h w) = log_event (St_error error_message) w'"
      by (simp add: generate_response_def)
    moreover have "extends_by inner_event w' (log_event (St_error error_message) w')"
      by (simp add: extends_by_log_event)
    ultimately show ?thesis
      using extends_by_trans [OF 1] by simp
  next
    case (Inr answer)
    with c have "snd (generate_response E q d h w) = w'"
      by (simp add: generate_response_def)
    with 1 show ?thesis by simp
  qed
qed

lemma inner_event_not_pipeline: "inner_event e \<Longrightarrow> \<not> is_call_pipeline e"
  by (cases e) simp_all

lemma inner_event_not_responder: "inner_event e \<Longrightarrow> \<not> is_call_responder e"
  by (cases e) simp_all

lemma generate_response_calls:
  "filter is_call_pipeline (trace (snd (generate_response E q d h w))) =
     filter is_call_pipeline (trace w) @ [Call_generate_response q h]"
proof -
  have "extends_by inner_event (log_event (Call_generate_response q h) w)
          (snd (generate_response E q d h w))"
    by (rule generate_response_extends)
  from extends_by_filter [OF this inner_event_not_pipeline] show ?thesis
    by (simp add: log_event_def)
qed

lemma generate_response_frame:
  "chat_history (snd (generate_response E q d h w)) = chat_history w \<and>
   db (snd (generate_response E q d h w)) = db w"
  using generate_response_extends [of q h w E d]
  by (simp add: extends_by_def log_event_def)

subsection \<open>The three stages of the pipeline\<close>

text \<open>
  The chain raises exactly when one of its three stages raises, with the exception of that
  stage: the SQL generation (\<open>sql_chain\<close>), the execution (\<open>db.run\<close>) or the summarization
  (the prompt and the client of \<open>generate_response\<close>).
\<close>

lemma generation_failure:
  assumes "sql_chain E d input w = (Inl e, w')"
  shows "chain E d input w = (Inl e, w')"
  using assms by (simp add: chain_def chain_assign_def)

lemma execution_failure:
  assumes "sql_chain E d input w = (Inr sql, w1)" and "run d (clock w1) sql = Inl e"
  shows "chain E d input w = (Inl e, log_event (Db_run sql) w1)"
  using assms by (simp add: chain_def chain_assign_def)

lemma summarization_failure:
  assumes "chain_assign E d input w = (Inr vars, w2)"
    and "llm_call E GEMINI_API_KEY_1 Response_template vars w2 = (Inl e, w')"
  shows "chain E d input w = (Inl e, w')"
  using assms by (simp add: chain_def)

subsection \<open>The branches of a turn\<close>

text \<open>
  The Related branch: the reply of the turn is whatever \<open>generate_response\<close> returns, and
  the pipeline is entered with the log as it is after the Human message.
\<close>

lemma related_turn:
  assumes "user_query \<noteq> []" and "db w = Some d"
    and "classify_question E user_query (received user_query w) = (Inr ''serious'', w1)"
    and "get_table_info d (clock w1) = Inr schema_info"
    and "describe_and_save_all E schema_info (log_event Db_get_table_info w1) =
           (Inr descriptions, w2)"
    and "verify_schema_relevance E user_query descriptions w2 = (Inr ''related'', w3)"
  shows "handle_user_query E (Some user_query) w =
           (Inr (), reply (fst (generate_response E user_query d (py_last2 (chat_history w3)) w3))
                     (snd (generate_response E user_query d (py_last2 (chat_history w3)) w3)))"
    and "chat_history w3 = chat_history w @ [HumanMessage user_query]"
    and "filter is_call_pipeline (trace w3) = filter is_call_pipeline (trace w)"
  using assms
  by (auto simp: handle_user_query_def op_defs Let_def
      split: sum.splits prod.splits if_splits option.splits)

text \<open>
  The Serious branch: whatever happens after the classifier has answered \<open>serious\<close>, the run
  goes on from the schema retrieval with events that are no call of the responder, and ends
  either in an exception or in the reply of the turn.
\<close>

lemma serious_branch:
  assumes "user_query \<noteq> []" and "db w = Some d"
    and "classify_question E user_query (received user_query w) = (Inr ''serious'', w1)"
  obtains v where
    "extends_by (\<lambda>e. \<not> is_call_responder e) (log_event Db_get_table_info w1) v"
    and "(\<exists>e. handle_user_query E (Some user_query) w = (Inl e, v)) \<or>
         (\<exists>r. handle_user_query E (Some user_query) w = (Inr (), reply r v))"
proof -
  let ?B = "\<lambda>e. \<not> is_call_responder e"
  let ?t = "log_event Db_get_table_info w1"
  let ?final = "handle_user_query E (Some user_query) w"
  have inner: "extends_by ?B a b" if "extends_by inner_event a b" for a b
    using that by (rule extends_by_mono) (simp add: inner_event_not_responder)
  from assms(2) have "db (received user_query w) = Some d"
    by (simp add: received_def log_event_def)
  with assms(1,3)
  have h: "handle_user_query E (Some user_query) w =
      (case get_table_info d (clock w1) of
         Inl e \<Rightarrow> (Inl e, ?t)
       | Inr schema_info \<Rightarrow>
           (case describe_and_save_all E schema_info ?t of
              (Inl e, w2) \<Rightarrow> (Inl e, w2)
            | (Inr descriptions, w2) \<Rightarrow>
                (case verify_schema_relevance E user_query descriptions w2 of
                   (Inl e, w3) \<Rightarrow> (Inl e, w3)
                 | (Inr relevance, w3) \<Rightarrow>
                     if relevance = ''related'' then
                       (case generate_response E user_query d (py_last2 (chat_history w3)) w3 of
                          (response, w4) \<Rightarrow> (Inr (), reply response w4))
                     else (Inr (), reply rejection w3))))"
    by (simp add: handle_user_query_def)
  show thesis
  proof (cases "get_table_info d (clock w1)")
    case (Inl e)
    with h have "\<exists>e. ?final = (Inl e, ?t)" by simp
    with extends_by_refl [of ?B ?t] show thesis by (rule that [of ?t, OF _ disjI1])
  next
    case table: (Inr schema_info)
    obtain r2 w2 where d: "describe_and_save_all E schema_info ?t = (r2, w2)"
      by (cases "describe_and_save_all E schema_info ?t")
    from inner [OF describe_extends [OF d]] have e2: "extends_by ?B ?t w2" .
    show thesis
    proof (cases r2)
      case (Inl e)
      with h table d have "\<exists>e. ?final = (Inl e, w2)" by simp
      with e2 show thesis by (rule that [of w2, OF _ disjI1])
    next
      case descr: (Inr descriptions)
      obtain r3 w3 where v: "verify_schema_relevance E user_query descriptions w2 = (r3, w3)"
        by (cases "verify_schema_relevance E user_query descriptions w2")
      then have "extends_by ?B w2 w3"
        by (auto simp: verify_schema_relevance_def llm_call_def extends_by_def log_event_def
            split: sum.splits)
      from extends_by_trans [OF e2 this] have e3: "extends_by ?B ?t w3" .
      show thesis
      proof (cases r3)
        case (Inl e)
        with h table d descr v have "\<exists>e. ?final = (Inl e, w3)" by simp
        with e3 show thesis by (rule that [of w3, OF _ disjI1])
      next
        case rel: (Inr relevance)
        show thesis
        proof (cases "relevance = ''related''")
          case False
          with h table d descr v rel have "?final = (Inr (), reply rejection w3)"
            by simp
          then have "\<exists>r. ?final = (Inr (), reply r w3)" ..
          with e3 show thesis by (rule that [of w3, OF _ disjI2])
        next
          case True
          let ?h = "py_last2 (chat_history w3)"
          let ?g = "generate_response E user_query d ?h w3"
          have "extends_by ?B w3 (log_event (Call_generate_response user_query ?h) w3)"
            by (simp add: extends_by_log_event)
          from extends_by_trans [OF this inner [OF generate_response_extends]]
          have "extends_by ?B w3 (snd ?g)" .
          from extends_by_trans [OF e3 this] have e4: "extends_by ?B ?t (snd ?g)" .
          from True h table d descr v rel
          have "?final = (Inr (), reply (fst ?g) (snd ?g))"
            by (simp add: case_prod_beta)
          then have "\<exists>r. ?final = (Inr (), reply r (snd ?g))" ..
          with e4 show thesis by (rule that [of "snd ?g", OF _ disjI2])
        qed
      qed
    qed
  qed
qed

text \<open>
  A turn with a database handle ends in one of two ways: it returns, and the log has grown
  by the Human message and one AI message; or an exception of the classifier, the schema
  retrieval, the describer, the verifier or the responder escapes, and the log has grown by
  the Human message only.
\<close>

lemma turn_outcome:
  assumes "user_query \<noteq> []" and "db w = Some d"
  shows "db (snd (handle_user_query E (Some user_query) w)) = db w \<and>
         (fst (handle_user_query E (Some user_query) w) = Inr () \<and>
          (\<exists>r. chat_history (snd (handle_user_query E (Some user_query) w)) =
                 chat_history w @ [HumanMessage user_query, AIMessage r]) \<or>
          (\<exists>e. fst (handle_user_query E (Some user_query) w) = Inl e) \<and>
          chat_history (snd (handle_user_query E (Some user_query) w)) =
            chat_history w @ [HumanMessage user_query])"
proof -
  let ?r = "received user_query w"
  obtain r1 w1 where c: "classify_question E user_query ?r = (r1, w1)"
    by (cases "classify_question E user_query ?r")
  then have f1: "chat_history w1 = chat_history w @ [HumanMessage user_query] \<and> db w1 = db w"
    by (auto simp: classify_question_def llm_call_def log_event_def received_def
        split: sum.splits)
  from assms(2) have dr: "db ?r = Some d"
    by (simp add: received_def log_event_def)
  show ?thesis
  proof (cases r1)
    case (Inl e)
    with c dr assms(1) have "handle_user_query E (Some user_query) w = (Inl e, w1)"
      by (simp add: handle_user_query_def)
    with f1 show ?thesis by simp
  next
    case (Inr classification)
    show ?thesis
    proof (cases "classification = ''serious''")
      case True
      with c Inr
      have "classify_question E user_query ?r = (Inr ''serious'', w1)"
        by simp
      from serious_branch [OF assms this] obtain v where
        v: "extends_by (\<lambda>e. \<not> is_call_responder e) (log_event Db_get_table_info w1) v"
        and o: "(\<exists>e. handle_user_query E (Some user_query) w = (Inl e, v)) \<or>
                (\<exists>r. handle_user_query E (Some user_query) w = (Inr (), reply r v))"
        by blast
      from v f1 have "chat_history v = chat_history w @ [HumanMessage user_query] \<and> db v = db w"
        by (simp add: extends_by_def log_event_def)
      with o show ?thesis
        by (auto simp: reply_def log_event_def)
    next
      case False
      with c Inr dr assms(1) f1 show ?thesis
        by (auto simp: handle_user_query_def get_non_serious_response_def llm_call_def
            log_event_def reply_def split: sum.splits)
    qed
  qed
qed

lemma turn_without_db:
  assumes "user_query \<noteq> []" and "db w = None"
  shows "handle_user_query E (Some user_query) w = (Inr (), received user_query w)"
  using assms by (simp add: handle_user_query_def received_def log_event_def)

text \<open>
  No turn deletes or edits what is in the log: the old log is a prefix of the new one.
\<close>

lemma turn_appends:
  "db (snd (handle_user_query E (Some user_query) w)) = db w \<and>
   (\<exists>new. chat_history (snd (handle_user_query E (Some user_query) w)) = chat_history w @ new)"
proof (cases "user_query = []")
  case True
  then show ?thesis by (simp add: handle_user_query_def)
next
  case False
  show ?thesis
  proof (cases "db w")
    case None
    from turn_without_db [OF False None] None show ?thesis
      by (simp add: received_def log_event_def)
  next
    case (Some d)
    from turn_outcome [OF False Some, of E] show ?thesis by auto
  qed
qed

lemma turns_append: "turns E (xs @ ys) w = turns E ys (turns E xs w)"
  by (induction xs arbitrary: w) simp_all

lemma turns_appends:
  "db (turns E qs w) = db w \<and> (\<exists>new. chat_history (turns E qs w) = chat_history w @ new)"
proof (induction qs arbitrary: w)
  case Nil
  show ?case by simp
next
  case (Cons q qs)
  let ?w = "snd (handle_user_query E (Some q) w)"
  from turn_appends [of E q w] obtain a where
    a: "db ?w = db w" "chat_history ?w = chat_history w @ a"
    by blast
  from Cons.IH [of ?w] obtain b where
    b: "db (turns E qs ?w) = db ?w" "chat_history (turns E qs ?w) = chat_history ?w @ b"
    by blast
  from a b show ?case by simp
qed

lemma completed_turns_log:
  assumes "db w = Some d" and "completed E qs w"
  shows "\<exists>rs. length rs = length qs \<and>
           chat_history (turns E qs w) =
             chat_history w @ concat (map (\<lambda>(q, r). [HumanMessage q, AIMessage r]) (zip qs rs))"
  using assms
proof (induction qs arbitrary: w)
  case Nil
  show ?case by simp
next
  case (Cons q qs)
  let ?w = "snd (handle_user_query E (Some q) w)"
  from Cons.prems(2) have q: "q \<noteq> []" and ok: "fst (handle_user_query E (Some q) w) = Inr ()"
    and rest: "completed E qs ?w"
    by simp_all
  from turn_outcome [OF q Cons.prems(1), of E] ok obtain r where
    r: "db ?w = Some d" "chat_history ?w = chat_history w @ [HumanMessage q, AIMessage r]"
    using Cons.prems(1) by auto
  from Cons.IH [OF r(1) rest] obtain rs where
    rs: "length rs = length qs"
      "chat_history (turns E qs ?w) =
         chat_history ?w @ concat (map (\<lambda>(q, r). [HumanMessage q, AIMessage r]) (zip qs rs))"
    by blast
  from rs r(2)
  have "length (r # rs) = length (q # qs) \<and>
        chat_history (turns E (q # qs) w) =
          chat_history w @
            concat (map (\<lambda>(q, r). [HumanMessage q, AIMessage r]) (zip (q # qs) (r # rs)))"
    by simp
  then show ?case by blast
qed

lemma length_pairs:
  "length rs = length qs \<Longrightarrow>
   length (concat (map (\<lambda>(q, r). [HumanMessage q, AIMessage r]) (zip qs rs))) = 2 * length qs"
  by (induction qs rs rule: list_induct2') simp_all

lemma py_last2_snoc:
  "length (py_last2 (xs @ [x])) \<le> 2 \<and> (xs \<noteq> [] \<longrightarrow> py_last2 (xs @ [x]) = [last xs, x])"
proof (cases xs rule: rev_cases)
  case Nil
  then show ?thesis by (simp add: py_last2_def)
next
  case (snoc ys y)
  then show ?thesis by (simp add: py_last2_def)
qed

lemma py_last2_whole: "py_last2 xs = xs \<longleftrightarrow> length xs \<le> 2"
proof
  assume "py_last2 xs = xs"
  then have "length (drop (length xs - 2) xs) = length xs"
    by (simp add: py_last2_def)
  then show "length xs \<le> 2" by simp
next
  assume "length xs \<le> 2"
  then show "py_last2 xs = xs" by (simp add: py_last2_def)
qed

section \<open>Properties\<close>

text \<open>
  C1. If one of the three stages of the pipeline raises (the SQL generation, the execution of
  the query or the summarization), \<open>generate_response\<close> returns the fixed text
  \<open>error_message\<close> instead of raising, after showing it with \<open>st.error\<close>. In that run each
  stage has been entered at most once: nothing is retried. When the run is the one of a
  Related turn, the turn returns normally, the pipeline has been entered exactly once, and the
  text is appended to the log as the AI message of the turn.
\<close>

theorem pipeline_failure_boundary:
  assumes
    "sql_chain E d [''question'' \<mapsto> PyStr user_query, ''chat_history'' \<mapsto> PyMessages history]
        (log_event (Sleep 10) (log_event (Call_generate_response user_query history) w3)) =
       (Inl e, w4) \<or>
     (\<exists>sql w'. sql_chain E d [''question'' \<mapsto> PyStr user_query, ''chat_history'' \<mapsto> PyMessages history]
        (log_event (Sleep 10) (log_event (Call_generate_response user_query history) w3)) =
          (Inr sql, w') \<and>
        run d (clock w') sql = Inl e \<and> w4 = log_event (Db_run sql) w') \<or>
     (\<exists>vars w'. chain_assign E d [''question'' \<mapsto> PyStr user_query, ''chat_history'' \<mapsto> PyMessages history]
        (log_event (Sleep 10) (log_event (Call_generate_response user_query history) w3)) =
          (Inr vars, w') \<and>
        llm_call E GEMINI_API_KEY_1 Response_template vars w' = (Inl e, w4))"
  shows
    "generate_response E user_query d history w3 =
       (error_message, log_event (St_error error_message) w4) \<and>
     count_events is_sql_generation (log_event (St_error error_message) w4) \<le>
       count_events is_sql_generation w3 + 1 \<and>
     count_events is_execution (log_event (St_error error_message) w4) \<le>
       count_events is_execution w3 + 1 \<and>
     count_events is_summarization (log_event (St_error error_message) w4) \<le>
       count_events is_summarization w3 + 1 \<and>
     (user_query \<noteq> [] \<and> db w = Some d \<and>
      classify_question E user_query (received user_query w) = (Inr ''serious'', w1) \<and>
      get_table_info d (clock w1) = Inr schema_info \<and>
      describe_and_save_all E schema_info (log_event Db_get_table_info w1) =
        (Inr descriptions, w2) \<and>
      verify_schema_relevance E user_query descriptions w2 = (Inr ''related'', w3) \<and>
      history = py_last2 (chat_history w3) \<longrightarrow>
        handle_user_query E (Some user_query) w =
          (Inr (), reply error_message (log_event (St_error error_message) w4)) \<and>
        chat_history (reply error_message (log_event (St_error error_message) w4)) =
          chat_history w @ [HumanMessage user_query, AIMessage error_message] \<and>
        count_events is_call_pipeline (reply error_message (log_event (St_error error_message) w4)) =
          count_events is_call_pipeline w + 1)"
proof -
  let ?input = "[''question'' \<mapsto> PyStr user_query, ''chat_history'' \<mapsto> PyMessages history]"
  let ?slept = "log_event (Sleep 10) (log_event (Call_generate_response user_query history) w3)"
  from assms have c: "chain E d ?input ?slept = (Inl e, w4)"
    by (auto intro: generation_failure execution_failure summarization_failure)
  then have g: "generate_response E user_query d history w3 =
      (error_message, log_event (St_error error_message) w4)"
    by (simp add: generate_response_def)
  from generate_response_counts [of E user_query d history w3] g
  have n: "count_events is_sql_generation (log_event (St_error error_message) w4) \<le>
       count_events is_sql_generation w3 + 1 \<and>
     count_events is_execution (log_event (St_error error_message) w4) \<le>
       count_events is_execution w3 + 1 \<and>
     count_events is_summarization (log_event (St_error error_message) w4) \<le>
       count_events is_summarization w3 + 1"
    by simp
  have "handle_user_query E (Some user_query) w =
          (Inr (), reply error_message (log_event (St_error error_message) w4)) \<and>
        chat_history (reply error_message (log_event (St_error error_message) w4)) =
          chat_history w @ [HumanMessage user_query, AIMessage error_message] \<and>
        count_events is_call_pipeline (reply error_message (log_event (St_error error_message) w4)) =
          count_events is_call_pipeline w + 1"
    if "user_query \<noteq> []" and "db w = Some d"
      and "classify_question E user_query (received user_query w) = (Inr ''serious'', w1)"
      and "get_table_info d (clock w1) = Inr schema_info"
      and "describe_and_save_all E schema_info (log_event Db_get_table_info w1) =
        (Inr descriptions, w2)"
      and "verify_schema_relevance E user_query descriptions w2 = (Inr ''related'', w3)"
      and h: "history = py_last2 (chat_history w3)"
  proof -
    note r = related_turn [OF that(1-6)]
    from generate_response_frame [of E user_query d history w3] g
    have "chat_history (log_event (St_error error_message) w4) = chat_history w3"
      by simp
    moreover from generate_response_calls [of E user_query d history w3] g
    have "filter is_call_pipeline (trace (log_event (St_error error_message) w4)) =
        filter is_call_pipeline (trace w3) @ [Call_generate_response user_query history]"
      by simp
    ultimately show ?thesis
      using r g h by (simp add: reply_def count_events_def log_event_def)
  qed
  with g n show ?thesis by blast
qed

text \<open>
  The quota of the SQL-generation client is used up: the first turn of a session ends with
  the fixed text as its reply.
\<close>

theorem pipeline_failure_boundary_witness:
  "fst (handle_user_query (example_env ''Serious'' ''Related'' [GEMINI_API_KEY_4])
          (Some ''How many employees?'') (fresh_world None (Some example_db))) = Inr () \<and>
   chat_history (snd (handle_user_query (example_env ''Serious'' ''Related'' [GEMINI_API_KEY_4])
          (Some ''How many employees?'') (fresh_world None (Some example_db)))) =
     [AIMessage greeting, HumanMessage ''How many employees?'', AIMessage error_message] \<and>
   count_events is_call_pipeline
     (snd (handle_user_query (example_env ''Serious'' ''Related'' [GEMINI_API_KEY_4])
          (Some ''How many employees?'') (fresh_world None (Some example_db)))) = 1"
proof -
  let ?E = "example_env ''Serious'' ''Related'' [GEMINI_API_KEY_4]"
  let ?q = "''How many employees?''"
  let ?s = "''CREATE TABLE dimEmployee (EmployeeKey INTEGER)''"
  let ?w = "fresh_world None (Some example_db)"
  let ?w1 = "snd (classify_question ?E ?q (received ?q ?w))"
  let ?w2 = "snd (describe_and_save_all ?E ?s (log_event Db_get_table_info ?w1))"
  let ?w3 = "snd (verify_schema_relevance ?E ?q ''dimEmployee(EmployeeKey int)'' ?w2)"
  let ?h = "py_last2 (chat_history ?w3)"
  let ?slept = "log_event (Sleep 10) (log_event (Call_generate_response ?q ?h) ?w3)"
  let ?input = "[''question'' \<mapsto> PyStr ?q, ''chat_history'' \<mapsto> PyMessages ?h]"
  let ?w4 = "snd (sql_chain ?E example_db ?input ?slept)"
  have q: "?q \<noteq> []" by simp
  have d: "db ?w = Some example_db" by (simp add: fresh_world_def)
  have c: "classify_question ?E ?q (received ?q ?w) = (Inr ''serious'', ?w1)"
    by (rule with_snd) (simp add: op_defs example_defs)
  have t: "get_table_info example_db (clock ?w1) = Inr ?s"
    by (simp add: example_db_def)
  have s: "describe_and_save_all ?E ?s (log_event Db_get_table_info ?w1) =
      (Inr ''dimEmployee(EmployeeKey int)'', ?w2)"
    by (rule with_snd) (simp add: op_defs example_defs)
  have v: "verify_schema_relevance ?E ?q ''dimEmployee(EmployeeKey int)'' ?w2 =
      (Inr ''related'', ?w3)"
    by (rule with_snd) (simp add: op_defs example_defs)
  have f: "sql_chain ?E example_db ?input ?slept = (Inl (Exception ''429 quota exceeded''), ?w4)"
    by (rule with_snd) (simp add: sql_chain_def get_schema_def op_defs example_defs)
  have z: "count_events P ?w = 0" for P
    by (simp add: count_events_def fresh_world_def)
  have g: "chat_history ?w = [AIMessage greeting]"
    by (simp add: fresh_world_def init_session_state_def)
  from pipeline_failure_boundary [OF disjI1, OF f, of ?w ?w1 ?s "''dimEmployee(EmployeeKey int)''" ?w2]
    q d c t s v z g
  show ?thesis by simp
qed







text \<open>
  C4, as the code has it. In a session whose log is the greeting and which has a database
  handle, after N turns that each return normally the log holds exactly 1 + 2N messages: the
  greeting and then, turn by turn and in order, the Human message and the AI reply. The log
  after the first k turns is a prefix of the log at the end, for every k.
\<close>

theorem log_after_answered_turns:
  assumes "chat_history w = fst (init_session_state None None)"
    and "db w = Some d" and "completed E qs w"
  shows "length (chat_history (turns E qs w)) = 1 + 2 * length qs \<and>
         (\<exists>rs. length rs = length qs \<and>
            chat_history (turns E qs w) =
              AIMessage greeting #
                concat (map (\<lambda>(q, r). [HumanMessage q, AIMessage r]) (zip qs rs))) \<and>
         (\<forall>k. \<exists>later. chat_history (turns E qs w) = chat_history (turns E (take k qs) w) @ later)"
proof -
  from completed_turns_log [OF assms(2,3)] obtain rs where
    rs: "length rs = length qs"
      "chat_history (turns E qs w) =
         chat_history w @ concat (map (\<lambda>(q, r). [HumanMessage q, AIMessage r]) (zip qs rs))"
    by blast
  from assms(1) have g: "chat_history w = [AIMessage greeting]"
    by (simp add: init_session_state_def)
  from rs g length_pairs [OF rs(1)]
  have 1: "length (chat_history (turns E qs w)) = 1 + 2 * length qs"
    by simp
  from rs g
  have 2: "\<exists>rs. length rs = length qs \<and>
            chat_history (turns E qs w) =
              AIMessage greeting #
                concat (map (\<lambda>(q, r). [HumanMessage q, AIMessage r]) (zip qs rs))"
    by auto
  have 3: "\<exists>later. chat_history (turns E qs w) = chat_history (turns E (take k qs) w) @ later"
    for k
  proof -
    have "turns E qs w = turns E (drop k qs) (turns E (take k qs) w)"
      using turns_append [of E "take k qs" "drop k qs" w] by simp
    with turns_appends [of E "drop k qs" "turns E (take k qs) w"] show ?thesis
      by auto
  qed
  from 1 2 3 show ?thesis by blast
qed

theorem log_after_answered_turns_witness:
  "length (chat_history (turns (example_env ''Non-Serious'' ''Related'' [])
      [''Tell me a joke'', ''Another one, please''] (fresh_world None (Some example_db)))) = 5"
proof -
  let ?E = "example_env ''Non-Serious'' ''Related'' []"
  let ?w = "fresh_world None (Some example_db)"
  have h: "chat_history ?w = fst (init_session_state None None)"
    and d: "db ?w = Some example_db"
    by (simp_all add: fresh_world_def)
  have c: "completed ?E [''Tell me a joke'', ''Another one, please''] ?w"
    by (simp add: handle_user_query_def op_defs example_defs)
  from log_after_answered_turns [OF h d c] show ?thesis
    by simp
qed

text \<open>
  A turn in a session that has no database handle returns normally and leaves two messages
  in the log, not three.
\<close>

theorem log_length_counterexample:
  "chat_history (fresh_world None None) = [AIMessage greeting] \<and>
   completed (example_env ''Non-Serious'' ''Related'' []) [''Tell me a joke'']
     (fresh_world None None) \<and>
   chat_history (turns (example_env ''Non-Serious'' ''Related'' []) [''Tell me a joke'']
     (fresh_world None None)) = [AIMessage greeting, HumanMessage ''Tell me a joke''] \<and>
   length (chat_history (turns (example_env ''Non-Serious'' ''Related'' []) [''Tell me a joke'']
     (fresh_world None None))) \<noteq> 1 + 2 * length [''Tell me a joke'']"
  by (simp add: handle_user_query_def op_defs example_defs)

text \<open>
  C5, as the code has it. When the classifier's answer is anything but \<open>serious\<close>, the turn
  calls neither the verifier nor the pipeline and calls the responder exactly once. When the
  responder returns, its stripped text is appended as the one AI message of the turn; when
  it raises, the exception leaves the turn and no AI message is appended.
\<close>

theorem non_serious_turn:
  assumes "user_query \<noteq> []" and "db w = Some d"
    and "classify_question E user_query (received user_query w) = (Inr classification, w1)"
    and "classification \<noteq> ''serious''"
  shows "count_events is_call_verifier (snd (handle_user_query E (Some user_query) w)) =
           count_events is_call_verifier w \<and>
         count_events is_call_pipeline (snd (handle_user_query E (Some user_query) w)) =
           count_events is_call_pipeline w \<and>
         count_events is_call_responder (snd (handle_user_query E (Some user_query) w)) =
           count_events is_call_responder w + 1 \<and>
         (case get_non_serious_response E user_query w1 of
            (Inr response, w2) \<Rightarrow>
              handle_user_query E (Some user_query) w = (Inr (), reply response w2) \<and>
              chat_history (reply response w2) =
                chat_history w @ [HumanMessage user_query, AIMessage response]
          | (Inl e, w2) \<Rightarrow>
              handle_user_query E (Some user_query) w = (Inl e, w2) \<and>
              chat_history w2 = chat_history w @ [HumanMessage user_query])"
  using assms
  by (auto simp: handle_user_query_def op_defs count_events_def split: sum.splits prod.splits)

theorem non_serious_turn_witness:
  "handle_user_query (example_env ''Non-Serious'' ''Related'' []) (Some ''Tell me a joke'')
       (fresh_world None (Some example_db)) =
     (Inr (), reply ''It just did not add up!''
        (snd (get_non_serious_response (example_env ''Non-Serious'' ''Related'' []) ''Tell me a joke''
           (snd (classify_question (example_env ''Non-Serious'' ''Related'' []) ''Tell me a joke''
              (received ''Tell me a joke'' (fresh_world None (Some example_db)))))))) \<and>
   chat_history (snd (handle_user_query (example_env ''Non-Serious'' ''Related'' [])
       (Some ''Tell me a joke'') (fresh_world None (Some example_db)))) =
     [AIMessage greeting, HumanMessage ''Tell me a joke'', AIMessage ''It just did not add up!''] \<and>
   count_events is_call_responder (snd (handle_user_query (example_env ''Non-Serious'' ''Related'' [])
       (Some ''Tell me a joke'') (fresh_world None (Some example_db)))) = 1 \<and>
   count_events is_call_verifier (snd (handle_user_query (example_env ''Non-Serious'' ''Related'' [])
       (Some ''Tell me a joke'') (fresh_world None (Some example_db)))) = 0 \<and>
   count_events is_call_pipeline (snd (handle_user_query (example_env ''Non-Serious'' ''Related'' [])
       (Some ''Tell me a joke'') (fresh_world None (Some example_db)))) = 0"
proof -
  let ?E = "example_env ''Non-Serious'' ''Related'' []"
  let ?q = "''Tell me a joke''"
  let ?w = "fresh_world None (Some example_db)"
  let ?w1 = "snd (classify_question ?E ?q (received ?q ?w))"
  have q: "?q \<noteq> []" by simp
  have d: "db ?w = Some example_db" by (simp add: fresh_world_def)
  have c: "classify_question ?E ?q (received ?q ?w) = (Inr ''non-serious'', ?w1)"
    by (rule with_snd) (simp add: op_defs example_defs)
  have n: "''non-serious'' \<noteq> ''serious''" by simp
  have r: "fst (get_non_serious_response ?E ?q ?w1) = Inr ''It just did not add up!''"
    by (simp add: op_defs example_defs)
  have z: "count_events P ?w = 0" for P
    by (simp add: count_events_def fresh_world_def)
  have g: "chat_history ?w = [AIMessage greeting]"
    by (simp add: fresh_world_def init_session_state_def)
  from non_serious_turn [OF q d c n] r z g show ?thesis
    by (auto split: prod.splits sum.splits)
qed

text \<open>
  The question is classified Non-Serious and the quota of the responder's client is used
  up: the turn raises, and the log ends with the Human message.
\<close>

theorem non_serious_turn_counterexample:
  "fst (classify_question (example_env ''Non-Serious'' ''Related'' [GEMINI_API_KEY_5])
          ''Tell me a joke'' (received ''Tell me a joke'' (fresh_world None (Some example_db)))) =
     Inr ''non-serious'' \<and>
   fst (handle_user_query (example_env ''Non-Serious'' ''Related'' [GEMINI_API_KEY_5])
          (Some ''Tell me a joke'') (fresh_world None (Some example_db))) =
     Inl (Exception ''429 quota exceeded'') \<and>
   chat_history (snd (handle_user_query (example_env ''Non-Serious'' ''Related'' [GEMINI_API_KEY_5])
          (Some ''Tell me a joke'') (fresh_world None (Some example_db)))) =
     [AIMessage greeting, HumanMessage ''Tell me a joke'']"
  by (simp add: handle_user_query_def op_defs example_defs)

text \<open>
  C6. When the classifier's answer is \<open>serious\<close> and the verifier's answer is anything but
  \<open>related\<close>, the turn returns normally, its reply is the fixed rejection text, appended to
  the log as it is after the Human message, and the pipeline is not invoked.
\<close>

theorem not_related_turn:
  assumes "user_query \<noteq> []" and "db w = Some d"
    and "classify_question E user_query (received user_query w) = (Inr ''serious'', w1)"
    and "get_table_info d (clock w1) = Inr schema_info"
    and "describe_and_save_all E schema_info (log_event Db_get_table_info w1) =
           (Inr descriptions, w2)"
    and "verify_schema_relevance E user_query descriptions w2 = (Inr relevance, w3)"
    and "relevance \<noteq> ''related''"
  shows "handle_user_query E (Some user_query) w = (Inr (), reply rejection w3) \<and>
         chat_history (reply rejection w3) =
           chat_history w @ [HumanMessage user_query, AIMessage rejection] \<and>
         count_events is_call_pipeline (reply rejection w3) = count_events is_call_pipeline w"
  using assms
  by (auto simp: handle_user_query_def op_defs count_events_def Let_def
      split: sum.splits prod.splits if_splits option.splits)

theorem not_related_turn_witness:
  "fst (handle_user_query (example_env ''Serious'' ''Not related'' [])
          (Some ''Will it rain in Cairo?'') (fresh_world None (Some example_db))) = Inr () \<and>
   chat_history (snd (handle_user_query (example_env ''Serious'' ''Not related'' [])
          (Some ''Will it rain in Cairo?'') (fresh_world None (Some example_db)))) =
     [AIMessage greeting, HumanMessage ''Will it rain in Cairo?'', AIMessage rejection] \<and>
   count_events is_call_pipeline (snd (handle_user_query (example_env ''Serious'' ''Not related'' [])
          (Some ''Will it rain in Cairo?'') (fresh_world None (Some example_db)))) = 0"
proof -
  let ?E = "example_env ''Serious'' ''Not related'' []"
  let ?q = "''Will it rain in Cairo?''"
  let ?s = "''CREATE TABLE dimEmployee (EmployeeKey INTEGER)''"
  let ?w = "fresh_world None (Some example_db)"
  let ?w1 = "snd (classify_question ?E ?q (received ?q ?w))"
  let ?w2 = "snd (describe_and_save_all ?E ?s (log_event Db_get_table_info ?w1))"
  let ?w3 = "snd (verify_schema_relevance ?E ?q ''dimEmployee(EmployeeKey int)'' ?w2)"
  have q: "?q \<noteq> []" by simp
  have d: "db ?w = Some example_db" by (simp add: fresh_world_def)
  have c: "classify_question ?E ?q (received ?q ?w) = (Inr ''serious'', ?w1)"
    by (rule with_snd) (simp add: op_defs example_defs)
  have t: "get_table_info example_db (clock ?w1) = Inr ?s"
    by (simp add: example_db_def)
  have s: "describe_and_save_all ?E ?s (log_event Db_get_table_info ?w1) =
      (Inr ''dimEmployee(EmployeeKey int)'', ?w2)"
    by (rule with_snd) (simp add: op_defs example_defs)
  have v: "verify_schema_relevance ?E ?q ''dimEmployee(EmployeeKey int)'' ?w2 =
      (Inr ''not related'', ?w3)"
    by (rule with_snd) (simp add: op_defs example_defs)
  have n: "''not related'' \<noteq> ''related''" by simp
  have z: "count_events P ?w = 0" for P
    by (simp add: count_events_def fresh_world_def)
  have g: "chat_history ?w = [AIMessage greeting]"
    by (simp add: fresh_world_def init_session_state_def)
  from not_related_turn [OF q d c t s v n] z g show ?thesis
    by simp
qed



text \<open>
  C8, as the code has it. Whenever the first two steps of the chain return, the dictionary
  handed to the summarization prompt binds \<open>schema\<close> to the function object \<open>get_schema\<close>,
  not to the description that the SQL-generation prompt was given, and
  \<open>describe_and_save_all\<close> is called once in the whole chain, by the SQL-generation stage.
\<close>

theorem summarization_schema_binding:
  assumes "chain_assign E d input w = (Inr vars, w')"
  shows "vars ''schema'' = Some (PyFunction ''get_schema'') \<and>
         (\<exists>descriptions w1.
            get_schema E d w = (Inr descriptions, w1) \<and>
            sql_chain E d input w =
              llm_call E GEMINI_API_KEY_4 Sql_template (input(''schema'' \<mapsto> PyStr descriptions)) w1 \<and>
            vars ''schema'' \<noteq> Some (PyStr descriptions)) \<and>
         chain E d input w = llm_call E GEMINI_API_KEY_1 Response_template vars w' \<and>
         count_events is_call_describe w' = count_events is_call_describe w + 1 \<and>
         count_events is_call_describe (snd (chain E d input w)) =
           count_events is_call_describe w + 1"
proof -
  from assms have v: "vars ''schema'' = Some (PyFunction ''get_schema'')"
    by (cases rule: chain_assign_cases) (auto split: sum.splits)
  from assms obtain sql w0 where s: "sql_chain E d input w = (Inr sql, w0)"
    by (cases rule: chain_assign_cases) auto
  then obtain descriptions w1 where g: "get_schema E d w = (Inr descriptions, w1)"
    by (cases "get_schema E d w") (auto simp: sql_chain_def split: sum.splits)
  then have q: "sql_chain E d input w =
      llm_call E GEMINI_API_KEY_4 Sql_template (input(''schema'' \<mapsto> PyStr descriptions)) w1"
    by (simp add: sql_chain_def)
  from assms have c: "chain E d input w = llm_call E GEMINI_API_KEY_1 Response_template vars w'"
    by (simp add: chain_def)
  from chain_assign_counts(6) [OF assms]
  have n: "count_events is_call_describe w' = count_events is_call_describe w + 1"
    by simp
  obtain r w2 where l: "llm_call E GEMINI_API_KEY_1 Response_template vars w' = (r, w2)"
    by (cases "llm_call E GEMINI_API_KEY_1 Response_template vars w'")
  from llm_call_count [OF l, of is_call_describe] n c l
  have "count_events is_call_describe (snd (chain E d input w)) =
      count_events is_call_describe w + 1"
    by (simp split: sum.splits)
  with v g q c n show ?thesis by auto
qed

text \<open>
  One run of the chain: the prompts that reach the three clients, in order. The last one
  carries the printed function object where the description should be.
\<close>

theorem summarization_schema_binding_witness:
  "projr (fst (chain_assign (example_env ''Serious'' ''Related'' []) example_db
      [''question'' \<mapsto> PyStr ''How many employees?''] (fresh_world None (Some example_db))))
     ''schema'' = Some (PyFunction ''get_schema'') \<and>
   count_events is_call_describe
     (snd (chain (example_env ''Serious'' ''Related'' []) example_db
        [''question'' \<mapsto> PyStr ''How many employees?''] (fresh_world None (Some example_db)))) = 1 \<and>
   filter is_llm_invoke
     (trace (snd (chain (example_env ''Serious'' ''Related'' []) example_db
        [''question'' \<mapsto> PyStr ''How many employees?''] (fresh_world None (Some example_db))))) =
     [Llm_invoke GEMINI_API_KEY_2 ''prompt'',
      Llm_invoke GEMINI_API_KEY_4 ''<SCHEMA>dimEmployee(EmployeeKey int)</SCHEMA>'',
      Llm_invoke GEMINI_API_KEY_1 ''<SCHEMA><function get_schema></SCHEMA>'']"
proof -
  let ?E = "example_env ''Serious'' ''Related'' []"
  let ?input = "[''question'' \<mapsto> PyStr ''How many employees?'']"
  let ?w = "fresh_world None (Some example_db)"
  let ?a = "chain_assign ?E example_db ?input ?w"
  have "\<not> isl (fst ?a)"
    by (simp add: chain_assign_def sql_chain_def get_schema_def op_defs example_defs)
  then have a: "?a = (Inr (projr (fst ?a)), snd ?a)"
    by (simp add: prod_eq_iff)
  have z: "count_events P ?w = 0" for P
    by (simp add: count_events_def fresh_world_def)
  have l: "filter is_llm_invoke (trace (snd (chain ?E example_db ?input ?w))) =
     [Llm_invoke GEMINI_API_KEY_2 ''prompt'',
      Llm_invoke GEMINI_API_KEY_4 ''<SCHEMA>dimEmployee(EmployeeKey int)</SCHEMA>'',
      Llm_invoke GEMINI_API_KEY_1 ''<SCHEMA><function get_schema></SCHEMA>'']"
    by (simp add: chain_def chain_assign_def sql_chain_def get_schema_def op_defs example_defs)
  note t = summarization_schema_binding [OF a]
  from t have 1: "projr (fst ?a) ''schema'' = Some (PyFunction ''get_schema'')"
    by (rule conjunct1)
  from t have "count_events is_call_describe (snd (chain ?E example_db ?input ?w)) =
      count_events is_call_describe ?w + 1"
    by blast
  with z have 2: "count_events is_call_describe (snd (chain ?E example_db ?input ?w)) = 1"
    by simp
  from 1 2 l show ?thesis
    by (intro conjI)
qed

text \<open>
  C9, as the code has it. In a Related turn the pipeline is invoked once, with the slice
  \<open>[-2:]\<close> of the log as it is after the Human message: at most two messages, and, whenever
  the earlier log is not empty, the last message of the earlier log and the Human message of
  this turn. The slice is the whole log exactly when the earlier log has at most one
  message, as in the first turn of a session.
\<close>

theorem pipeline_history_suffix:
  assumes "user_query \<noteq> []" and "db w = Some d"
    and "classify_question E user_query (received user_query w) = (Inr ''serious'', w1)"
    and "get_table_info d (clock w1) = Inr schema_info"
    and "describe_and_save_all E schema_info (log_event Db_get_table_info w1) =
           (Inr descriptions, w2)"
    and "verify_schema_relevance E user_query descriptions w2 = (Inr ''related'', w3)"
  shows "filter is_call_pipeline (trace (snd (handle_user_query E (Some user_query) w))) =
           filter is_call_pipeline (trace w) @
             [Call_generate_response user_query
                (py_last2 (chat_history w @ [HumanMessage user_query]))] \<and>
         length (py_last2 (chat_history w @ [HumanMessage user_query])) \<le> 2 \<and>
         (chat_history w \<noteq> [] \<longrightarrow>
            py_last2 (chat_history w @ [HumanMessage user_query]) =
              [last (chat_history w), HumanMessage user_query]) \<and>
         (py_last2 (chat_history w @ [HumanMessage user_query]) =
            chat_history w @ [HumanMessage user_query] \<longleftrightarrow>
          length (chat_history w) \<le> 1)"
proof -
  note r = related_turn [OF assms]
  from r(1) generate_response_calls [of E user_query d "py_last2 (chat_history w3)" w3] r(2,3)
  have "filter is_call_pipeline (trace (snd (handle_user_query E (Some user_query) w))) =
           filter is_call_pipeline (trace w) @
             [Call_generate_response user_query
                (py_last2 (chat_history w @ [HumanMessage user_query]))]"
    by (simp add: reply_def log_event_def)
  with py_last2_snoc [of "chat_history w" "HumanMessage user_query"]
    py_last2_whole [of "chat_history w @ [HumanMessage user_query]"]
  show ?thesis
    by simp
qed

theorem pipeline_history_suffix_witness:
  "filter is_call_pipeline
     (trace (snd (handle_user_query (example_env ''Serious'' ''Related'' [])
        (Some ''And how many of them are managers?'')
        ((fresh_world None (Some example_db))
           \<lparr>chat_history := [AIMessage greeting, HumanMessage ''How many employees?'',
                              AIMessage ''There are 296 employees.'']\<rparr>)))) =
     [Call_generate_response ''And how many of them are managers?''
        [AIMessage ''There are 296 employees.'',
         HumanMessage ''And how many of them are managers?'']]"
proof -
  let ?E = "example_env ''Serious'' ''Related'' []"
  let ?q = "''And how many of them are managers?''"
  let ?s = "''CREATE TABLE dimEmployee (EmployeeKey INTEGER)''"
  let ?w = "(fresh_world None (Some example_db))
           \<lparr>chat_history := [AIMessage greeting, HumanMessage ''How many employees?'',
                              AIMessage ''There are 296 employees.'']\<rparr>"
  let ?w1 = "snd (classify_question ?E ?q (received ?q ?w))"
  let ?w2 = "snd (describe_and_save_all ?E ?s (log_event Db_get_table_info ?w1))"
  let ?w3 = "snd (verify_schema_relevance ?E ?q ''dimEmployee(EmployeeKey int)'' ?w2)"
  have q: "?q \<noteq> []" by simp
  have d: "db ?w = Some example_db" by (simp add: fresh_world_def)
  have c: "classify_question ?E ?q (received ?q ?w) = (Inr ''serious'', ?w1)"
    by (rule with_snd) (simp add: op_defs example_defs)
  have t: "get_table_info example_db (clock ?w1) = Inr ?s"
    by (simp add: example_db_def)
  have s: "describe_and_save_all ?E ?s (log_event Db_get_table_info ?w1) =
      (Inr ''dimEmployee(EmployeeKey int)'', ?w2)"
    by (rule with_snd) (simp add: op_defs example_defs)
  have v: "verify_schema_relevance ?E ?q ''dimEmployee(EmployeeKey int)'' ?w2 =
      (Inr ''related'', ?w3)"
    by (rule with_snd) (simp add: op_defs example_defs)
  have z: "trace ?w = []" by (simp add: fresh_world_def)
  from pipeline_history_suffix [OF q d c t s v] z show ?thesis
    by (simp add: fresh_world_def)
qed

text \<open>
  The first turn of a session: the log is the greeting and the question, and the pipeline is
  given both, which is the full log.
\<close>

theorem pipeline_history_counterexample:
  "chat_history (received ''How many employees?'' (fresh_world None (Some example_db))) =
     [AIMessage greeting, HumanMessage ''How many employees?''] \<and>
   filter is_call_pipeline
     (trace (snd (handle_user_query (example_env ''Serious'' ''Related'' [])
        (Some ''How many employees?'') (fresh_world None (Some example_db))))) =
     [Call_generate_response ''How many employees?''
        [AIMessage greeting, HumanMessage ''How many employees?'']]"
  by (simp add: handle_user_query_def generate_response_def chain_def chain_assign_def
      sql_chain_def get_schema_def op_defs example_defs py_last2_def)

text \<open>
  C10. A message submitted while the session has no database handle is appended to the log as
  a Human message and echoed; nothing else happens: no classifier, verifier, responder or
  pipeline call, no LLM or database access, and no AI message.
\<close>

theorem no_db_no_reply:
  assumes "user_query \<noteq> []" and "db w = None"
  shows "handle_user_query E (Some user_query) w =
           (Inr (), w\<lparr>chat_history := chat_history w @ [HumanMessage user_query],
                      trace := trace w @ [St_markdown user_query]\<rparr>)"
  using assms by (simp add: handle_user_query_def received_def log_event_def)

theorem no_db_no_reply_witness:
  "handle_user_query (example_env ''Non-Serious'' ''Related'' []) (Some ''Tell me a joke'')
      (fresh_world None None) =
     (Inr (), (fresh_world None None)
        \<lparr>chat_history := [AIMessage greeting, HumanMessage ''Tell me a joke''],
         trace := [St_markdown ''Tell me a joke'']\<rparr>)"
  using no_db_no_reply [of "''Tell me a joke''" "fresh_world None None"
      "example_env ''Non-Serious'' ''Related'' []"]
  by (simp add: fresh_world_def init_session_state_def)

end
